theory Spec2Isabelle
  imports Main
begin

section \<open>Python strings\<close>

text \<open>
  A Python \<^verbatim>\<open>str\<close> is a sequence of Unicode code points; it is modelled as a list of
  natural numbers. \<open>lit\<close> turns an ASCII literal of the source into such a list.
\<close>

type_synonym pystr = "nat list"

definition lit :: "string \<Rightarrow> pystr" where
  "lit s = map of_char s"

text \<open>
  \<^verbatim>\<open>ch.isspace()\<close> for one character, which is also the set \<^verbatim>\<open>str.strip()\<close> removes:
  U+0009..U+000D, U+001C..U+0020, U+0085, U+00A0, U+1680, U+2000..U+200A, U+2028, U+2029,
  U+202F, U+205F and U+3000.
\<close>

definition isspace :: "nat \<Rightarrow> bool" where
  "isspace ch \<longleftrightarrow>
     (9 \<le> ch \<and> ch \<le> 13) \<or> (28 \<le> ch \<and> ch \<le> 32) \<or> ch = 133 \<or> ch = 160 \<or> ch = 5760 \<or>
     (8192 \<le> ch \<and> ch \<le> 8202) \<or> ch = 8232 \<or> ch = 8233 \<or> ch = 8239 \<or> ch = 8287 \<or>
     ch = 12288"

definition strip :: "pystr \<Rightarrow> pystr" where
  "strip s = rev (dropWhile isspace (rev (dropWhile isspace s)))"

text \<open>\<^verbatim>\<open>sep.join(parts)\<close>\<close>

fun join :: "pystr \<Rightarrow> pystr list \<Rightarrow> pystr" where
  "join sep [] = []"
| "join sep [x] = x"
| "join sep (x # y # ys) = x @ sep @ join sep (y # ys)"

text \<open>\<^verbatim>\<open>str(n)\<close> for an integer: decimal digits, with a minus sign when negative.\<close>

fun str_nat :: "nat \<Rightarrow> pystr" where
  "str_nat n = (if n < 10 then [48 + n] else str_nat (n div 10) @ [48 + n mod 10])"

declare str_nat.simps [simp del]

definition str_int :: "int \<Rightarrow> pystr" where
  "str_int i = (if i < 0 then 45 # str_nat (nat (- i)) else str_nat (nat i))"


section \<open>The command-preview rendering of one argument\<close>

text \<open>
  \<^verbatim>\<open>
  def _display_arg(value: str) -> str:
      if not value:
          return '""'
      if any(ch.isspace() for ch in value) or any(ch in "\"'" for ch in value):
          return f'"{value}"'
      return value
  \<close>
  Code point 34 is the double quote, 39 the single quote.
\<close>

definition display_arg :: "pystr \<Rightarrow> pystr" where
  "display_arg v =
     (if v = [] then [34, 34]
      else if list_ex isspace v \<or> list_ex (\<lambda>ch. ch \<in> set [34, 39]) v then [34] @ v @ [34]
      else v)"


section \<open>The window\<close>

datatype process_state = NotRunning | Starting | Running

datatype request = Terminate | Kill

text \<open>
  The \<^verbatim>\<open>QProcess\<close> object held in \<^verbatim>\<open>self.process\<close>: its state, what it was started
  with, and the termination requests sent to it so far.
\<close>

record qprocess =
  proc_state :: process_state
  program :: pystr
  arguments :: "pystr list"
  working_directory :: pystr
  requests :: "request list"

datatype severity = Critical | Warning

text \<open>
  The attributes of \<^verbatim>\<open>DownloaderGUI\<close> that the handlers read or write. A check box is its
  checked state; the line edits are their text; the progress bar is the pair handed to
  \<^verbatim>\<open>setRange\<close> and the number handed to \<^verbatim>\<open>setValue\<close>; the log is the sequence of texts
  inserted by \<^verbatim>\<open>_append_log\<close>; \<open>dialogs\<close> are the modal message boxes shown so far and
  \<open>launches\<close> the programs started so far, each with its argument list.
\<close>

record gui =
  script_path :: pystr
  root_dir :: pystr
  process :: "qprocess option"
  mode_index :: int
  html_path_text :: pystr
  output_path_text :: pystr
  merge_folder_text :: pystr
  resume_checked :: bool
  retry_failed_checked :: bool
  test_checked :: bool
  merge_overlays_checked :: bool
  defer_video_overlays_checked :: bool
  defer_video_overlays_enabled :: bool
  videos_only_checked :: bool
  pictures_only_checked :: bool
  overlays_only_checked :: bool
  timestamp_filenames_checked :: bool
  remove_duplicates_checked :: bool
  join_multi_snaps_checked :: bool
  threads_value :: int
  command_preview_text :: pystr
  start_enabled :: bool
  stop_enabled :: bool
  status_text :: pystr
  progress_range :: "int \<times> int"
  progress_value :: int
  log_output :: "pystr list"
  dialogs :: "(severity \<times> pystr \<times> pystr) list"
  launches :: "(pystr \<times> pystr list) list"


section \<open>The environment\<close>

text \<open>
  A \<^verbatim>\<open>pathlib.Path\<close> is built from a string, or from a path and a child name
  (\<^verbatim>\<open>Path(output_dir) / "metadata.json"\<close>).
\<close>

datatype path = Path pystr | Div path pystr

text \<open>
  What the program asks of its surroundings: \<^verbatim>\<open>sys.executable\<close>; the file system
  (\<^verbatim>\<open>Path.exists\<close>, \<^verbatim>\<open>Path.is_dir\<close>); and the outcome of
  \<^verbatim>\<open>QProcess.waitForFinished(msecs)\<close> on a process: \<open>Some code\<close> when the process
  finishes within \<open>msecs\<close> milliseconds with exit code \<open>code\<close> (the call returns true, and
  the \<^verbatim>\<open>finished\<close> signal has been emitted by then), \<open>None\<close> when the wait times out
  (the call returns false).
\<close>

record env =
  sys_executable :: pystr
  path_exists :: "path \<Rightarrow> bool"
  path_is_dir :: "path \<Rightarrow> bool"
  wait_for_finished :: "qprocess \<Rightarrow> nat \<Rightarrow> int option"


section \<open>The command builder\<close>

text \<open>
  \<^verbatim>\<open>_build_args\<close>: the list \<^verbatim>\<open>args\<close> grows by \<^verbatim>\<open>append\<close> and \<^verbatim>\<open>extend\<close>, statement by
  statement; merge mode (index 1) returns early.
\<close>

definition build_args :: "gui \<Rightarrow> pystr list" where
  "build_args g =
     (let args = [] in
      if mode_index g = 1 then
        (let merge_folder = strip (merge_folder_text g);
             args = (if merge_folder \<noteq> [] then args @ [lit ''--merge-existing'', merge_folder]
                     else args)
         in args)
      else
        (let html_path = strip (html_path_text g);
             args = (if html_path \<noteq> [] then args @ [html_path] else args);
             output_dir = strip (output_path_text g);
             args = (if output_dir \<noteq> [] then args @ [lit ''-o'', output_dir] else args);
             args = (if resume_checked g then args @ [lit ''--resume''] else args);
             args = (if retry_failed_checked g then args @ [lit ''--retry-failed''] else args);
             args = (if test_checked g then args @ [lit ''--test''] else args);
             args = (if merge_overlays_checked g then args @ [lit ''--merge-overlays'']
                     else args);
             args = (if defer_video_overlays_checked g
                     then args @ [lit ''--defer-video-overlays''] else args);
             args = (if videos_only_checked g then args @ [lit ''--videos-only''] else args);
             args = (if pictures_only_checked g then args @ [lit ''--pictures-only'']
                     else args);
             args = (if overlays_only_checked g then args @ [lit ''--overlays-only'']
                     else args);
             args = (if timestamp_filenames_checked g
                     then args @ [lit ''--timestamp-filenames''] else args);
             args = (if remove_duplicates_checked g then args @ [lit ''--remove-duplicates'']
                     else args);
             args = (if join_multi_snaps_checked g then args @ [lit ''--join-multi-snaps'']
                     else args);
             args = (if threads_value g > 1
                     then args @ [lit ''--threads'', str_int (threads_value g)] else args)
         in args))"

text \<open>\<^verbatim>\<open>_update_command_preview\<close>\<close>

definition update_command_preview :: "env \<Rightarrow> gui \<Rightarrow> gui" where
  "update_command_preview e g =
     (let args = build_args g;
          command = [sys_executable e, lit ''-u'', script_path g] @ args;
          preview = join (lit '' '') (map display_arg command)
      in g\<lparr>command_preview_text := preview\<rparr>)"


section \<open>Check boxes and their \<^verbatim>\<open>toggled\<close> slots\<close>

datatype checkbox =
  Resume | RetryFailed | Test | MergeOverlays | DeferVideoOverlays | VideosOnly |
  PicturesOnly | OverlaysOnly | TimestampFilenames | RemoveDuplicates | JoinMultiSnaps

fun isChecked :: "checkbox \<Rightarrow> gui \<Rightarrow> bool" where
  "isChecked Resume g = resume_checked g"
| "isChecked RetryFailed g = retry_failed_checked g"
| "isChecked Test g = test_checked g"
| "isChecked MergeOverlays g = merge_overlays_checked g"
| "isChecked DeferVideoOverlays g = defer_video_overlays_checked g"
| "isChecked VideosOnly g = videos_only_checked g"
| "isChecked PicturesOnly g = pictures_only_checked g"
| "isChecked OverlaysOnly g = overlays_only_checked g"
| "isChecked TimestampFilenames g = timestamp_filenames_checked g"
| "isChecked RemoveDuplicates g = remove_duplicates_checked g"
| "isChecked JoinMultiSnaps g = join_multi_snaps_checked g"

text \<open>The bare change of a box's checked state, before any signal is delivered.\<close>

fun store_checked :: "checkbox \<Rightarrow> bool \<Rightarrow> gui \<Rightarrow> gui" where
  "store_checked Resume b g = g\<lparr>resume_checked := b\<rparr>"
| "store_checked RetryFailed b g = g\<lparr>retry_failed_checked := b\<rparr>"
| "store_checked Test b g = g\<lparr>test_checked := b\<rparr>"
| "store_checked MergeOverlays b g = g\<lparr>merge_overlays_checked := b\<rparr>"
| "store_checked DeferVideoOverlays b g = g\<lparr>defer_video_overlays_checked := b\<rparr>"
| "store_checked VideosOnly b g = g\<lparr>videos_only_checked := b\<rparr>"
| "store_checked PicturesOnly b g = g\<lparr>pictures_only_checked := b\<rparr>"
| "store_checked OverlaysOnly b g = g\<lparr>overlays_only_checked := b\<rparr>"
| "store_checked TimestampFilenames b g = g\<lparr>timestamp_filenames_checked := b\<rparr>"
| "store_checked RemoveDuplicates b g = g\<lparr>remove_duplicates_checked := b\<rparr>"
| "store_checked JoinMultiSnaps b g = g\<lparr>join_multi_snaps_checked := b\<rparr>"

text \<open>
  \<^verbatim>\<open>box.setChecked(False)\<close>, as the handlers below call it on the boxes resume,
  retry-failed, test, videos-only, pictures-only and defer-video-overlays. Nothing happens
  when the box is already unchecked. Otherwise its state changes and \<^verbatim>\<open>toggled(False)\<close>
  goes to its slots in the order of \<^verbatim>\<open>_connect_signals\<close>: first
  \<^verbatim>\<open>_update_command_preview\<close>, then the box's own handler, if it has one. Each handler
  of these six boxes starts with \<^verbatim>\<open>if checked:\<close> and so does nothing for the argument
  \<^verbatim>\<open>False\<close> (lemma \<open>handlers_ignore_unchecking\<close> below), which is why it does not
  appear here.
\<close>

definition setChecked_False :: "env \<Rightarrow> checkbox \<Rightarrow> gui \<Rightarrow> gui" where
  "setChecked_False e box g =
     (if isChecked box g then update_command_preview e (store_checked box False g) else g)"

definition on_resume_toggled :: "env \<Rightarrow> bool \<Rightarrow> gui \<Rightarrow> gui" where
  "on_resume_toggled e checked g =
     (if checked then setChecked_False e Test (setChecked_False e RetryFailed g) else g)"

definition on_retry_toggled :: "env \<Rightarrow> bool \<Rightarrow> gui \<Rightarrow> gui" where
  "on_retry_toggled e checked g =
     (if checked then setChecked_False e Test (setChecked_False e Resume g) else g)"

definition on_test_toggled :: "env \<Rightarrow> bool \<Rightarrow> gui \<Rightarrow> gui" where
  "on_test_toggled e checked g =
     (if checked then setChecked_False e RetryFailed (setChecked_False e Resume g) else g)"

definition on_videos_only_toggled :: "env \<Rightarrow> bool \<Rightarrow> gui \<Rightarrow> gui" where
  "on_videos_only_toggled e checked g =
     (if checked then setChecked_False e PicturesOnly g else g)"

definition on_pictures_only_toggled :: "env \<Rightarrow> bool \<Rightarrow> gui \<Rightarrow> gui" where
  "on_pictures_only_toggled e checked g =
     (if checked then setChecked_False e VideosOnly g else g)"

definition on_merge_overlays_toggled :: "env \<Rightarrow> bool \<Rightarrow> gui \<Rightarrow> gui" where
  "on_merge_overlays_toggled e checked g =
     (let g = g\<lparr>defer_video_overlays_enabled := checked\<rparr>
      in if \<not> checked then setChecked_False e DeferVideoOverlays g else g)"

text \<open>
  The slots connected to \<^verbatim>\<open>box.toggled\<close>, run in connection order with the new state:
  \<^verbatim>\<open>_update_command_preview\<close> (connected in the loop over all eleven boxes), then the
  handler connected after the loop.
\<close>

fun toggled :: "env \<Rightarrow> checkbox \<Rightarrow> bool \<Rightarrow> gui \<Rightarrow> gui" where
  "toggled e Resume checked g = on_resume_toggled e checked (update_command_preview e g)"
| "toggled e RetryFailed checked g = on_retry_toggled e checked (update_command_preview e g)"
| "toggled e Test checked g = on_test_toggled e checked (update_command_preview e g)"
| "toggled e VideosOnly checked g =
     on_videos_only_toggled e checked (update_command_preview e g)"
| "toggled e PicturesOnly checked g =
     on_pictures_only_toggled e checked (update_command_preview e g)"
| "toggled e MergeOverlays checked g =
     on_merge_overlays_toggled e checked (update_command_preview e g)"
| "toggled e box checked g = update_command_preview e g"

text \<open>
  A toggle event: the user clicks a check box. A disabled box (only defer-video-overlays
  is ever disabled, by \<^verbatim>\<open>setEnabled(False)\<close>) does not react; otherwise the state flips and
  \<^verbatim>\<open>toggled\<close> is emitted with the new state.
\<close>

definition click :: "env \<Rightarrow> checkbox \<Rightarrow> gui \<Rightarrow> gui" where
  "click e box g =
     (if box = DeferVideoOverlays \<and> \<not> defer_video_overlays_enabled g then g
      else let checked = \<not> isChecked box g in toggled e box checked (store_checked box checked g))"


section \<open>Progress markers\<close>







definition append_log :: "pystr \<Rightarrow> gui \<Rightarrow> gui" where
  "append_log text g = g\<lparr>log_output := log_output g @ [text]\<rparr>"






text \<open>\<^verbatim>\<open>_handle_process_finished\<close>\<close>

definition handle_process_finished :: "int \<Rightarrow> gui \<Rightarrow> gui" where
  "handle_process_finished exit_code g =
     append_log (lit ''Process finished with exit code '' @ str_int exit_code @ [46, 10])
       (g\<lparr>start_enabled := True,
          stop_enabled := False,
          progress_range := (0, 1),
          progress_value := 1,
          status_text := lit ''Finished (exit code '' @ str_int exit_code @ lit '')''\<rparr>)"


section \<open>Starting and stopping the process\<close>




text \<open>
  \<^verbatim>\<open>_stop_process\<close>. When the wait succeeds the process has finished and the slot of its
  \<^verbatim>\<open>finished\<close> signal, \<^verbatim>\<open>_handle_process_finished\<close>, has run before the wait returns.
\<close>

definition stop_process :: "env \<Rightarrow> gui \<Rightarrow> gui" where
  "stop_process e g =
     (case process g of
        None \<Rightarrow> g
      | Some p \<Rightarrow>
          if proc_state p = NotRunning then g
          else
            let p = p\<lparr>requests := requests p @ [Terminate]\<rparr>;
                g = g\<lparr>process := Some p\<rparr>;
                g = (case wait_for_finished e p 2000 of
                       Some exit_code \<Rightarrow>
                         handle_process_finished exit_code
                           (g\<lparr>process := Some (p\<lparr>proc_state := NotRunning\<rparr>)\<rparr>)
                     | None \<Rightarrow> g\<lparr>process := Some (p\<lparr>requests := requests p @ [Kill]\<rparr>)\<rparr>)
            in append_log (lit ''Process stopped by user.'' @ [10]) g)"


section \<open>The window as \<^verbatim>\<open>__init__\<close> leaves it\<close>

text \<open>
  The widgets as \<^verbatim>\<open>_build_ui\<close> creates them, then the three calls that end
  \<^verbatim>\<open>__init__\<close> (\<^verbatim>\<open>_update_mode_ui\<close> only shows and hides groups). \<open>root\<close> and \<open>script\<close>
  are \<^verbatim>\<open>str(self.root_dir)\<close> and \<^verbatim>\<open>str(self.script_path)\<close>.
\<close>

definition build_ui :: "pystr \<Rightarrow> pystr \<Rightarrow> gui" where
  "build_ui root script =
     \<lparr>script_path = script, root_dir = root, process = None, mode_index = 0,
      html_path_text = [], output_path_text = lit ''memories'', merge_folder_text = [],
      resume_checked = False, retry_failed_checked = False, test_checked = False,
      merge_overlays_checked = False, defer_video_overlays_checked = False,
      defer_video_overlays_enabled = True, videos_only_checked = False,
      pictures_only_checked = False, overlays_only_checked = False,
      timestamp_filenames_checked = False, remove_duplicates_checked = False,
      join_multi_snaps_checked = False, threads_value = 1, command_preview_text = [],
      start_enabled = True, stop_enabled = False, status_text = lit ''Idle'',
      progress_range = (0, 1), progress_value = 0, log_output = [], dialogs = [],
      launches = []\<rparr>"

definition init :: "env \<Rightarrow> pystr \<Rightarrow> pystr \<Rightarrow> gui" where
  "init e root script =
     (let g = build_ui root script;
          g = on_merge_overlays_toggled e (merge_overlays_checked g) g
      in update_command_preview e g)"


section \<open>Notions of the specification\<close>

text \<open>The mode combo box has two entries: index 0 is download, index 1 is merge-existing.\<close>

definition download_mode :: "gui \<Rightarrow> bool" where
  "download_mode g \<longleftrightarrow> mode_index g = 0"

definition merge_mode :: "gui \<Rightarrow> bool" where
  "merge_mode g \<longleftrightarrow> mode_index g = 1"

text \<open>The boolean flags of download mode in their fixed order, each with its state.\<close>

definition flag_table :: "gui \<Rightarrow> (bool \<times> pystr) list" where
  "flag_table g =
     [(resume_checked g, lit ''--resume''),
      (retry_failed_checked g, lit ''--retry-failed''),
      (test_checked g, lit ''--test''),
      (merge_overlays_checked g, lit ''--merge-overlays''),
      (defer_video_overlays_checked g, lit ''--defer-video-overlays''),
      (videos_only_checked g, lit ''--videos-only''),
      (pictures_only_checked g, lit ''--pictures-only''),
      (overlays_only_checked g, lit ''--overlays-only''),
      (timestamp_filenames_checked g, lit ''--timestamp-filenames''),
      (remove_duplicates_checked g, lit ''--remove-duplicates''),
      (join_multi_snaps_checked g, lit ''--join-multi-snaps'')]"

text \<open>
  The two exclusions: no two of resume, retry-failed and test are checked together, and
  videos-only and pictures-only are not checked together.
\<close>

definition exclusions :: "gui \<Rightarrow> bool" where
  "exclusions g \<longleftrightarrow>
     \<not> (resume_checked g \<and> retry_failed_checked g) \<and>
     \<not> (resume_checked g \<and> test_checked g) \<and>
     \<not> (retry_failed_checked g \<and> test_checked g) \<and>
     \<not> (videos_only_checked g \<and> pictures_only_checked g)"




text \<open>A process is running: \<^verbatim>\<open>self.process\<close> is set and its state is not \<open>NotRunning\<close>.\<close>

definition process_running :: "gui \<Rightarrow> bool" where
  "process_running g \<longleftrightarrow>
     (case process g of None \<Rightarrow> False | Some p \<Rightarrow> proc_state p \<noteq> NotRunning)"








section \<open>Sample inputs\<close>

text \<open>
  A file system holding the script and \<^verbatim>\<open>/m.html\<close>, with the directory \<^verbatim>\<open>/pairs\<close>, and
  no \<^verbatim>\<open>metadata.json\<close> anywhere; a process that outlives every wait.
\<close>

definition sample_env :: env where
  "sample_env =
     \<lparr>sys_executable = lit ''python3'',
      path_exists = (\<lambda>p. p \<in> set [Path (lit ''/app/download_memories.py''),
                                   Path (lit ''/m.html''), Path (lit ''/pairs'')]),
      path_is_dir = (\<lambda>p. p = Path (lit ''/pairs'')),
      wait_for_finished = (\<lambda>p msecs. None)\<rparr>"

definition sample_window :: gui where
  "sample_window = init sample_env (lit ''/app'') (lit ''/app/download_memories.py'')"

definition sample_process :: qprocess where
  "sample_process =
     \<lparr>proc_state = Running, program = lit ''python3'', arguments = [],
      working_directory = lit ''/app'', requests = []\<rparr>"


section \<open>The command builder: proofs\<close>

lemma if_append_right: "(if b then xs @ ys else xs) = xs @ (if b then ys else [])"
  by simp

lemma enabled_concat:
  "map snd (filter fst xs) = concat (map (\<lambda>(b, s). if b then [s] else []) xs)"
  by (induction xs) auto

lemma join_Cons: "join sep (x # xs) = x @ concat (map (\<lambda>y. sep @ y) xs)"
  by (induction xs arbitrary: x) simp_all

lemma sample_window_fields:
  "mode_index sample_window = 0" "html_path_text sample_window = []"
  "output_path_text sample_window = lit ''memories''" "merge_folder_text sample_window = []"
  "script_path sample_window = lit ''/app/download_memories.py''"
  "root_dir sample_window = lit ''/app''" "process sample_window = None"
  "resume_checked sample_window = False" "retry_failed_checked sample_window = False"
  "test_checked sample_window = False" "merge_overlays_checked sample_window = False"
  "defer_video_overlays_checked sample_window = False"
  "defer_video_overlays_enabled sample_window = False"
  "videos_only_checked sample_window = False" "pictures_only_checked sample_window = False"
  "overlays_only_checked sample_window = False"
  "timestamp_filenames_checked sample_window = False"
  "remove_duplicates_checked sample_window = False"
  "join_multi_snaps_checked sample_window = False" "threads_value sample_window = 1"
  "log_output sample_window = []" "dialogs sample_window = []" "launches sample_window = []"
  by (simp_all add: sample_window_def init_def build_ui_def Let_def
      on_merge_overlays_toggled_def setChecked_False_def update_command_preview_def)

text \<open>The argument list in closed form, for both modes.\<close>

lemma build_args_closed:
  "build_args g =
     (if mode_index g = 1 then
        (if strip (merge_folder_text g) = [] then []
         else [lit ''--merge-existing'', strip (merge_folder_text g)])
      else
        (if strip (html_path_text g) = [] then [] else [strip (html_path_text g)]) @
        (if strip (output_path_text g) = [] then []
         else [lit ''-o'', strip (output_path_text g)]) @
        map snd (filter fst (flag_table g)) @
        (if threads_value g > 1 then [lit ''--threads'', str_int (threads_value g)] else []))"
  unfolding enabled_concat flag_table_def build_args_def Let_def
  by (simp add: if_append_right del: append_assoc)

text \<open>
  C1. In merge mode the argument list is \<^verbatim>\<open>--merge-existing\<close> followed by the stripped folder
  text and nothing else when that text is non-empty, and the empty list when it is empty;
  no other field of the form has any influence.
\<close>

theorem merge_mode_args:
  "merge_mode g \<Longrightarrow>
     build_args g =
       (if strip (merge_folder_text g) = [] then []
        else [lit ''--merge-existing'', strip (merge_folder_text g)]) \<and>
     (\<forall>g'. merge_mode g' \<and> merge_folder_text g' = merge_folder_text g \<longrightarrow>
        build_args g' = build_args g)"
  by (simp add: build_args_def merge_mode_def)

theorem merge_mode_args_witness:
  "merge_mode (sample_window\<lparr>mode_index := 1, merge_folder_text := lit '' /x y '',
      resume_checked := True, threads_value := 4\<rparr>) \<and>
   build_args (sample_window\<lparr>mode_index := 1, merge_folder_text := lit '' /x y '',
      resume_checked := True, threads_value := 4\<rparr>) = [lit ''--merge-existing'', lit ''/x y''] \<and>
   build_args (sample_window\<lparr>mode_index := 1, merge_folder_text := lit ''  ''\<rparr>) = []"
  using
    merge_mode_args [of "sample_window\<lparr>mode_index := 1, merge_folder_text := lit '' /x y '',
      resume_checked := True, threads_value := 4\<rparr>"]
    merge_mode_args [of "sample_window\<lparr>mode_index := 1, merge_folder_text := lit ''  ''\<rparr>"]
  by (simp add: merge_mode_def strip_def isspace_def lit_def)

text \<open>
  C2. In download mode the argument list is, in this order: the stripped HTML path if it is
  non-empty; \<^verbatim>\<open>-o\<close> and the stripped output directory if it is non-empty; the flags of the
  checked boxes in the order of \<open>flag_table\<close>; \<^verbatim>\<open>--threads N\<close> exactly when the thread
  count \<open>N\<close> exceeds one. With a thread count of 1 the list ends with the flags.
\<close>

theorem download_mode_args:
  "download_mode g \<Longrightarrow>
     build_args g =
       (if strip (html_path_text g) = [] then [] else [strip (html_path_text g)]) @
       (if strip (output_path_text g) = [] then []
        else [lit ''-o'', strip (output_path_text g)]) @
       map snd (filter fst (flag_table g)) @
       (if threads_value g > 1 then [lit ''--threads'', str_int (threads_value g)] else []) \<and>
     (threads_value g = 1 \<longrightarrow>
        build_args g =
          (if strip (html_path_text g) = [] then [] else [strip (html_path_text g)]) @
          (if strip (output_path_text g) = [] then []
           else [lit ''-o'', strip (output_path_text g)]) @
          map snd (filter fst (flag_table g)))"
  by (simp add: build_args_closed download_mode_def)

theorem download_mode_args_witness:
  "download_mode (sample_window\<lparr>html_path_text := lit '' /m.html'', test_checked := True,
      join_multi_snaps_checked := True, videos_only_checked := True, threads_value := 16\<rparr>) \<and>
   build_args (sample_window\<lparr>html_path_text := lit '' /m.html'', test_checked := True,
      join_multi_snaps_checked := True, videos_only_checked := True, threads_value := 16\<rparr>) =
     [lit ''/m.html'', lit ''-o'', lit ''memories'', lit ''--test'', lit ''--videos-only'',
      lit ''--join-multi-snaps'', lit ''--threads'', lit ''16''] \<and>
   build_args (sample_window\<lparr>resume_checked := True\<rparr>) =
     [lit ''-o'', lit ''memories'', lit ''--resume'']"
  using
    download_mode_args [of "sample_window\<lparr>html_path_text := lit '' /m.html'',
      test_checked := True, join_multi_snaps_checked := True, videos_only_checked := True,
      threads_value := 16\<rparr>"]
    download_mode_args [of "sample_window\<lparr>resume_checked := True\<rparr>"]
  by (simp add: download_mode_def sample_window_fields flag_table_def strip_def isspace_def
      lit_def str_int_def str_nat.simps)


section \<open>The command preview: proofs\<close>

text \<open>
  C9. The rendering of one argument: the empty string becomes two double quotes; a string
  with a whitespace character, a double quote or a single quote is put between double
  quotes, its contents unchanged; any other string is left as it is. The preview is the
  renderings of the interpreter, \<^verbatim>\<open>-u\<close>, the script path and the built arguments, with one
  space between neighbours. Nothing is escaped, so the preview does not determine the
  arguments: the single argument made of a double quote, a space and a double quote is
  rendered like two empty arguments.
\<close>

theorem display_arg_cases:
  "display_arg [] = [34, 34] \<and>
   (v \<noteq> [] \<and> (\<exists>ch\<in>set v. isspace ch \<or> ch = 34 \<or> ch = 39) \<longrightarrow>
      display_arg v = [34] @ v @ [34]) \<and>
   (v \<noteq> [] \<and> \<not> (\<exists>ch\<in>set v. isspace ch \<or> ch = 34 \<or> ch = 39) \<longrightarrow> display_arg v = v) \<and>
   command_preview_text (update_command_preview e g) =
     display_arg (sys_executable e) @ [32] @ display_arg (lit ''-u'') @ [32] @
     display_arg (script_path g) @ concat (map (\<lambda>a. [32] @ display_arg a) (build_args g)) \<and>
   join [32] (map display_arg [[34, 32, 34]]) = join [32] (map display_arg [[], []])"
proof (intro conjI)
  show "display_arg [] = [34, 34]"
    by (simp add: display_arg_def)
  show "v \<noteq> [] \<and> (\<exists>ch\<in>set v. isspace ch \<or> ch = 34 \<or> ch = 39) \<longrightarrow>
      display_arg v = [34] @ v @ [34]"
    by (auto simp add: display_arg_def list_ex_iff)
  show "v \<noteq> [] \<and> \<not> (\<exists>ch\<in>set v. isspace ch \<or> ch = 34 \<or> ch = 39) \<longrightarrow> display_arg v = v"
    by (auto simp add: display_arg_def list_ex_iff)
  show "command_preview_text (update_command_preview e g) =
     display_arg (sys_executable e) @ [32] @ display_arg (lit ''-u'') @ [32] @
     display_arg (script_path g) @ concat (map (\<lambda>a. [32] @ display_arg a) (build_args g))"
    by (simp add: update_command_preview_def Let_def join_Cons lit_def comp_def)
  show "join [32] (map display_arg [[34, 32, 34]]) = join [32] (map display_arg [[], []])"
    by (simp add: display_arg_def isspace_def)
qed

theorem display_arg_cases_witness:
  "display_arg (lit ''/x y'') = [34] @ lit ''/x y'' @ [34] \<and>
   display_arg (lit ''it'' @ [39] @ lit ''s'') = [34] @ lit ''it'' @ [39] @ lit ''s'' @ [34] \<and>
   display_arg (lit ''--resume'') = lit ''--resume'' \<and>
   command_preview_text
     (update_command_preview sample_env
        (sample_window\<lparr>mode_index := 1, merge_folder_text := lit ''/x y''\<rparr>)) =
     lit ''python3 -u /app/download_memories.py --merge-existing '' @ [34] @ lit ''/x y'' @ [34]"
  using display_arg_cases [of "lit ''/x y''" sample_env
      "sample_window\<lparr>mode_index := 1, merge_folder_text := lit ''/x y''\<rparr>"]
    display_arg_cases [of "lit ''it'' @ [39] @ lit ''s''"] display_arg_cases [of "lit ''--resume''"]
  by (simp add: sample_window_fields sample_env_def build_args_def strip_def isspace_def
      lit_def display_arg_def)


section \<open>Check boxes: proofs\<close>

lemma handlers_ignore_unchecking:
  "on_resume_toggled e False g = g"
  "on_retry_toggled e False g = g"
  "on_test_toggled e False g = g"
  "on_videos_only_toggled e False g = g"
  "on_pictures_only_toggled e False g = g"
  by (simp_all add: on_resume_toggled_def on_retry_toggled_def on_test_toggled_def
      on_videos_only_toggled_def on_pictures_only_toggled_def)

lemma preview_keeps_boxes:
  "resume_checked (update_command_preview e g) = resume_checked g"
  "retry_failed_checked (update_command_preview e g) = retry_failed_checked g"
  "test_checked (update_command_preview e g) = test_checked g"
  "merge_overlays_checked (update_command_preview e g) = merge_overlays_checked g"
  "defer_video_overlays_checked (update_command_preview e g) = defer_video_overlays_checked g"
  "defer_video_overlays_enabled (update_command_preview e g) = defer_video_overlays_enabled g"
  "videos_only_checked (update_command_preview e g) = videos_only_checked g"
  "pictures_only_checked (update_command_preview e g) = pictures_only_checked g"
  "overlays_only_checked (update_command_preview e g) = overlays_only_checked g"
  "timestamp_filenames_checked (update_command_preview e g) = timestamp_filenames_checked g"
  "remove_duplicates_checked (update_command_preview e g) = remove_duplicates_checked g"
  "join_multi_snaps_checked (update_command_preview e g) = join_multi_snaps_checked g"
  by (simp_all add: update_command_preview_def Let_def)

lemmas click_defs = click_def Let_def setChecked_False_def on_resume_toggled_def
  on_retry_toggled_def on_test_toggled_def on_videos_only_toggled_def
  on_pictures_only_toggled_def on_merge_overlays_toggled_def

text \<open>What a click on \<open>box\<close> does to the state of any box \<open>b\<close>.\<close>

lemma isChecked_click:
  "isChecked b (click e box g) =
     (if box = DeferVideoOverlays \<and> \<not> defer_video_overlays_enabled g then isChecked b g
      else if b = box then \<not> isChecked box g
      else if isChecked box g then
        (if box = MergeOverlays \<and> b = DeferVideoOverlays then False else isChecked b g)
      else if box \<in> {Resume, RetryFailed, Test} \<and> b \<in> {Resume, RetryFailed, Test} then False
      else if box \<in> {VideosOnly, PicturesOnly} \<and> b \<in> {VideosOnly, PicturesOnly} then False
      else isChecked b g)"
  by (cases box; cases b; simp add: click_defs preview_keeps_boxes)

lemma enabled_click:
  "defer_video_overlays_enabled (click e box g) =
     (if box = MergeOverlays then \<not> merge_overlays_checked g
      else defer_video_overlays_enabled g)"
  by (cases box; simp add: click_defs preview_keeps_boxes)

lemma exclusions_isChecked:
  "exclusions g \<longleftrightarrow>
     \<not> (isChecked Resume g \<and> isChecked RetryFailed g) \<and>
     \<not> (isChecked Resume g \<and> isChecked Test g) \<and>
     \<not> (isChecked RetryFailed g \<and> isChecked Test g) \<and>
     \<not> (isChecked VideosOnly g \<and> isChecked PicturesOnly g)"
  by (simp add: exclusions_def)

lemma click_keeps_exclusions: "exclusions g \<Longrightarrow> exclusions (click e box g)"
  unfolding exclusions_isChecked isChecked_click by (cases box; simp)

lemma clicks_keep_exclusions: "exclusions g \<Longrightarrow> exclusions (fold (click e) boxes g)"
  by (induction boxes arbitrary: g) (simp_all add: click_keeps_exclusions)

text \<open>
  C3. Starting from a window in which the two exclusions hold, any sequence of clicks on
  check boxes leads to a window in which they hold. Moreover, in any window, checking one
  of resume, retry-failed and test leaves it checked and the other two unchecked, and
  checking one of videos-only and pictures-only leaves it checked and the other unchecked.
\<close>

theorem toggles_keep_exclusions:
  "exclusions g \<Longrightarrow>
     exclusions (fold (click e) boxes g) \<and>
     (\<forall>h box other.
        box \<in> {Resume, RetryFailed, Test} \<and> other \<in> {Resume, RetryFailed, Test} \<and>
        other \<noteq> box \<and> \<not> isChecked box h \<longrightarrow>
        isChecked box (click e box h) \<and> \<not> isChecked other (click e box h)) \<and>
     (\<forall>h box other.
        box \<in> {VideosOnly, PicturesOnly} \<and> other \<in> {VideosOnly, PicturesOnly} \<and>
        other \<noteq> box \<and> \<not> isChecked box h \<longrightarrow>
        isChecked box (click e box h) \<and> \<not> isChecked other (click e box h))"
proof (intro conjI)
  assume "exclusions g"
  then show "exclusions (fold (click e) boxes g)" by (rule clicks_keep_exclusions)
next
  show "\<forall>h box other.
        box \<in> {Resume, RetryFailed, Test} \<and> other \<in> {Resume, RetryFailed, Test} \<and>
        other \<noteq> box \<and> \<not> isChecked box h \<longrightarrow>
        isChecked box (click e box h) \<and> \<not> isChecked other (click e box h)"
    unfolding isChecked_click by auto
next
  show "\<forall>h box other.
        box \<in> {VideosOnly, PicturesOnly} \<and> other \<in> {VideosOnly, PicturesOnly} \<and>
        other \<noteq> box \<and> \<not> isChecked box h \<longrightarrow>
        isChecked box (click e box h) \<and> \<not> isChecked other (click e box h)"
    unfolding isChecked_click by auto
qed

theorem toggles_keep_exclusions_witness:
  "exclusions sample_window \<and>
   exclusions
     (fold (click sample_env) [Resume, VideosOnly, Test, PicturesOnly, RetryFailed]
        sample_window) \<and>
   retry_failed_checked
     (fold (click sample_env) [Resume, VideosOnly, Test, PicturesOnly, RetryFailed]
        sample_window) \<and>
   \<not> resume_checked
     (fold (click sample_env) [Resume, VideosOnly, Test, PicturesOnly, RetryFailed]
        sample_window) \<and>
   \<not> test_checked
     (fold (click sample_env) [Resume, VideosOnly, Test, PicturesOnly, RetryFailed]
        sample_window) \<and>
   pictures_only_checked
     (fold (click sample_env) [Resume, VideosOnly, Test, PicturesOnly, RetryFailed]
        sample_window) \<and>
   \<not> videos_only_checked
     (fold (click sample_env) [Resume, VideosOnly, Test, PicturesOnly, RetryFailed]
        sample_window)"
proof -
  have e: "exclusions sample_window"
    by (simp add: exclusions_def sample_window_fields)
  show ?thesis
    using e toggles_keep_exclusions
      [OF e, of sample_env "[Resume, VideosOnly, Test, PicturesOnly, RetryFailed]"]
    by (simp add: click_defs preview_keeps_boxes sample_window_fields)
qed

text \<open>
  C4. The handler of merge-overlays, called with \<^verbatim>\<open>False\<close>, leaves defer-video-overlays
  unchecked and disabled, whatever the window. So unchecking merge-overlays by a click
  unchecks and disables defer-video-overlays; checking it again by a second click enables
  the box and leaves it unchecked.
\<close>

theorem merge_overlays_governs_defer:
  "\<not> defer_video_overlays_checked (on_merge_overlays_toggled e False g) \<and>
   \<not> defer_video_overlays_enabled (on_merge_overlays_toggled e False g) \<and>
   (merge_overlays_checked g \<longrightarrow>
      \<not> merge_overlays_checked (click e MergeOverlays g) \<and>
      \<not> defer_video_overlays_checked (click e MergeOverlays g) \<and>
      \<not> defer_video_overlays_enabled (click e MergeOverlays g) \<and>
      merge_overlays_checked (click e MergeOverlays (click e MergeOverlays g)) \<and>
      defer_video_overlays_enabled (click e MergeOverlays (click e MergeOverlays g)) \<and>
      \<not> defer_video_overlays_checked (click e MergeOverlays (click e MergeOverlays g)))"
  by (simp add: click_defs preview_keeps_boxes)

theorem merge_overlays_governs_defer_witness:
  "merge_overlays_checked
     (click sample_env DeferVideoOverlays (click sample_env MergeOverlays sample_window)) \<and>
   defer_video_overlays_checked
     (click sample_env DeferVideoOverlays (click sample_env MergeOverlays sample_window)) \<and>
   \<not> defer_video_overlays_checked
     (click sample_env MergeOverlays
        (click sample_env DeferVideoOverlays (click sample_env MergeOverlays sample_window))) \<and>
   \<not> defer_video_overlays_enabled
     (click sample_env MergeOverlays
        (click sample_env DeferVideoOverlays (click sample_env MergeOverlays sample_window))) \<and>
   \<not> defer_video_overlays_checked
     (click sample_env MergeOverlays (click sample_env MergeOverlays
        (click sample_env DeferVideoOverlays (click sample_env MergeOverlays sample_window))))"
  using merge_overlays_governs_defer [of sample_env
      "click sample_env DeferVideoOverlays (click sample_env MergeOverlays sample_window)"]
  by (simp add: click_defs preview_keeps_boxes sample_window_fields)


section \<open>Progress markers: proofs\<close>

































section \<open>Starting and stopping: proofs\<close>


lemma append_log_fields:
  "process (append_log x g) = process g"
  "launches (append_log x g) = launches g"
  "dialogs (append_log x g) = dialogs g"
  "log_output (append_log x g) = log_output g @ [x]"
  "script_path (append_log x g) = script_path g"
  "root_dir (append_log x g) = root_dir g"
  "process_running (append_log x g) = process_running g"
  by (simp_all add: append_log_def process_running_def)










lemma stop_idle:
  "process g = None \<or> (\<exists>p. process g = Some p \<and> proc_state p = NotRunning) \<Longrightarrow>
   stop_process e g = g"
  by (auto simp add: stop_process_def)

lemma handle_process_finished_fields:
  "process (handle_process_finished c g) = process g"
  "log_output (handle_process_finished c g) =
     log_output g @ [lit ''Process finished with exit code '' @ str_int c @ [46, 10]]"
  by (simp_all add: handle_process_finished_def append_log_def)

lemma stop_running:
  assumes "process g = Some p" "proc_state p \<noteq> NotRunning"
  shows "process (stop_process e g) =
           (case wait_for_finished e (p\<lparr>requests := requests p @ [Terminate]\<rparr>) 2000 of
              None \<Rightarrow> Some (p\<lparr>requests := requests p @ [Terminate, Kill]\<rparr>)
            | Some code \<Rightarrow>
                Some (p\<lparr>requests := requests p @ [Terminate], proc_state := NotRunning\<rparr>))"
    "last (log_output (stop_process e g)) = lit ''Process stopped by user.'' @ [10]"
proof -
  let ?p = "p\<lparr>requests := requests p @ [Terminate]\<rparr>"
  show "process (stop_process e g) =
           (case wait_for_finished e ?p 2000 of
              None \<Rightarrow> Some (p\<lparr>requests := requests p @ [Terminate, Kill]\<rparr>)
            | Some code \<Rightarrow>
                Some (p\<lparr>requests := requests p @ [Terminate], proc_state := NotRunning\<rparr>))"
    using assms
    by (cases "wait_for_finished e ?p 2000")
      (simp_all add: stop_process_def Let_def append_log_fields
        handle_process_finished_fields)
  show "last (log_output (stop_process e g)) = lit ''Process stopped by user.'' @ [10]"
    using assms
    by (cases "wait_for_finished e ?p 2000")
      (simp_all add: stop_process_def Let_def append_log_fields)
qed






text \<open>
  C8. A stop request with no process, or with a process that is not running, changes
  nothing. Otherwise graceful termination is requested first; then the process is waited
  for with a limit of 2000 milliseconds; a kill is requested, once, exactly when that wait
  times out; and the last line of the log records the stop.
\<close>

theorem stop_terminates_then_kills:
  "(process g = None \<or> (\<exists>q. process g = Some q \<and> proc_state q = NotRunning) \<longrightarrow>
      stop_process e g = g) \<and>
   (process g = Some p \<and> proc_state p \<noteq> NotRunning \<longrightarrow>
      (\<exists>p'. process (stop_process e g) = Some p' \<and>
         requests p' =
           requests p @ [Terminate] @
           (if wait_for_finished e (p\<lparr>requests := requests p @ [Terminate]\<rparr>) 2000 = None
            then [Kill] else [])) \<and>
      last (log_output (stop_process e g)) = lit ''Process stopped by user.'' @ [10])"
proof (intro conjI impI)
  assume "process g = None \<or> (\<exists>q. process g = Some q \<and> proc_state q = NotRunning)"
  then show "stop_process e g = g" by (rule stop_idle)
next
  assume a: "process g = Some p \<and> proc_state p \<noteq> NotRunning"
  then have b: "process g = Some p" "proc_state p \<noteq> NotRunning" by simp_all
  show "\<exists>p'. process (stop_process e g) = Some p' \<and>
         requests p' =
           requests p @ [Terminate] @
           (if wait_for_finished e (p\<lparr>requests := requests p @ [Terminate]\<rparr>) 2000 = None
            then [Kill] else [])"
    unfolding stop_running(1) [OF b]
    by (cases "wait_for_finished e (p\<lparr>requests := requests p @ [Terminate]\<rparr>) 2000") simp_all
  show "last (log_output (stop_process e g)) = lit ''Process stopped by user.'' @ [10]"
    by (rule stop_running(2) [OF b])
qed

theorem stop_terminates_then_kills_witness:
  "process (sample_window\<lparr>process := Some sample_process\<rparr>) = Some sample_process \<and>
   proc_state sample_process \<noteq> NotRunning \<and>
   process (stop_process sample_env (sample_window\<lparr>process := Some sample_process\<rparr>)) =
     Some (sample_process\<lparr>requests := [Terminate, Kill]\<rparr>) \<and>
   process (stop_process (sample_env\<lparr>wait_for_finished := (\<lambda>q msecs. Some 0)\<rparr>)
       (sample_window\<lparr>process := Some sample_process\<rparr>)) =
     Some (sample_process\<lparr>requests := [Terminate], proc_state := NotRunning\<rparr>) \<and>
   stop_process sample_env sample_window = sample_window"
  using
    stop_terminates_then_kills [of "sample_window\<lparr>process := Some sample_process\<rparr>"
      sample_env sample_process]
    stop_terminates_then_kills [of sample_window sample_env]
  by (simp add: stop_process_def sample_window_fields sample_process_def sample_env_def
      Let_def append_log_def handle_process_finished_def)

end
